theory Spec2Isabelle
  imports Main
begin

section \<open>SheetsHandler: an adapter between callers and a hosted spreadsheet\<close>

text \<open>
  The source is one Python class, \<open>SheetsHandler\<close> (file \<open>themes/prueba.py\<close>). Its
  two fields, \<open>config\<close> and \<open>gc\<close>, and everything it touches outside itself (the
  file system, the hosted spreadsheets, standard output) are fields of one record that
  every method takes and returns. A method that raises returns \<open>Inl\<close> of the
  exception; one that returns normally returns \<open>Inr\<close> of its value.
\<close>

subsection \<open>Python values\<close>

text \<open>
  What \<open>json.load\<close> returns. \<open>JNull\<close> is Python's \<open>None\<close>, which is also what
  \<open>_load_config\<close> returns when it fails. Floating-point numbers are left out.
\<close>

datatype json =
  JNull
  | JBool bool
  | JInt int
  | JStr string
  | JArr "json list"
  | JObj "(string \<times> json) list"

text \<open>The exceptions that occur, by their Python names.\<close>

datatype exn =
  AttributeError
  | TypeError
  | OverflowError
  | IndexError
  | OSError
  | ConnectionError
  | SpreadsheetNotFound
  | GSpreadException

text \<open>
  \<open>except gspread.exceptions.GSpreadException\<close> catches the client library's base
  class and its subclasses, of which \<open>SpreadsheetNotFound\<close> is one.
\<close>

definition is_gspread :: "exn \<Rightarrow> bool" where
  "is_gspread e = (e = SpreadsheetNotFound \<or> e = GSpreadException)"

text \<open>Truth value of an object, as \<open>if x:\<close> and \<open>not x\<close> take it.\<close>

fun truthy :: "json \<Rightarrow> bool" where
  "truthy JNull = False"
| "truthy (JBool b) = b"
| "truthy (JInt n) = (n \<noteq> 0)"
| "truthy (JStr s) = (s \<noteq> [])"
| "truthy (JArr xs) = (xs \<noteq> [])"
| "truthy (JObj kvs) = (kvs \<noteq> [])"

text \<open>
  \<open>x.get(key)\<close>: a dictionary answers with the value or \<open>None\<close>; no other value
  of the type has a \<open>get\<close> attribute.
\<close>

fun dict_get :: "json \<Rightarrow> string \<Rightarrow> exn + json" where
  "dict_get (JObj kvs) k = Inr (case map_of kvs k of None \<Rightarrow> JNull | Some v \<Rightarrow> v)"
| "dict_get JNull k = Inl AttributeError"
| "dict_get (JBool b) k = Inl AttributeError"
| "dict_get (JInt n) k = Inl AttributeError"
| "dict_get (JStr s) k = Inl AttributeError"
| "dict_get (JArr xs) k = Inl AttributeError"

text \<open>
  The values a caller passes as \<open>identifier_value\<close> (declared \<open>Any\<close>), and
  \<open>str\<close> of them.
\<close>

datatype pyval = PNone | PBool bool | PInt int | PStr string

fun dec :: "nat \<Rightarrow> string" where
  "dec n = (if n < 10 then [''0123456789'' ! n] else dec (n div 10) @ [''0123456789'' ! (n mod 10)])"

declare dec.simps [simp del]

fun py_str :: "pyval \<Rightarrow> string" where
  "py_str PNone = ''None''"
| "py_str (PBool b) = (if b then ''True'' else ''False'')"
| "py_str (PInt n) = (if n < 0 then CHR ''-'' # dec (nat (- n)) else dec (nat n))"
| "py_str (PStr s) = s"

text \<open>\<open>xs.index(x)\<close>, zero-based, and \<open>x in xs\<close>: the first position of \<open>x\<close>.\<close>

primrec first_index :: "'a list \<Rightarrow> 'a \<Rightarrow> nat option" where
  "first_index [] x = None"
| "first_index (y # ys) x = (if y = x then Some 0 else map_option Suc (first_index ys x))"

subsection \<open>The state: the adapter and its environment\<close>

text \<open>
  A path of the file system leads to a file that holds a JSON document, to a file whose
  text is not JSON, or to something \<open>open\<close> cannot read (a directory, a file
  without read permission).
\<close>

datatype file_kind = Json json | NotJson | Unreadable

datatype client = Client

datatype worksheet = Worksheet string

type_synonym grid = "string list list"

text \<open>The calls the adapter makes into the client library.\<close>

datatype call =
  ServiceAccount json
  | OpenByUrl json
  | Sheet1 string
  | GetAllRecords
  | RowValues nat
  | ColValues nat
  | Find string
  | FindInColumn string nat
  | FindAllInColumn string nat
  | UpdateCell nat nat string
  | AppendRow "string list"

text \<open>The lines the adapter prints, one constructor for each \<open>print\<close> of the source.\<close>

datatype msg =
  ConfigFileNotFound string
  | ConfigNotValidJson string
  | CannotAuthenticateWithoutConfig
  | CredentialsFileNotFound json
  | AuthenticationOk
  | AuthenticationGspreadError exn
  | AuthenticationUnexpectedError exn
  | ClientNotAuthenticated
  | SpreadsheetNotFoundAt json
  | SpreadsheetAccessError json exn
  | RecordsReadError string exn
  | HeadersReadError string exn
  | IdentifierColumnNotFound string
  | IdentifierRowNotFound string pyval
  | ColumnToUpdateNotFound string
  | RecordUpdated string string pyval
  | UpdateGspreadError exn
  | UpdateUnexpectedError exn
  | ReadingProcessNumbers
  | ProcessNumbersReadError exn
  | ProcessesDeactivated nat
  | DeactivateError exn
  | ProcessAdded
  | AddProcessError exn

text \<open>
  \<open>config\<close> and \<open>gc\<close> are the adapter's own fields. \<open>files\<close> and \<open>fds\<close> are
  the file system (paths, open file descriptors); \<open>sheets\<close> maps the address of each
  hosted spreadsheet to the cells of its first worksheet; \<open>faults\<close> lists, for the
  coming calls into the client library, the exception the call raises (\<open>None\<close>: the
  call goes through; past the end of the list every call goes through); \<open>trace\<close>
  records the calls made, each with the exception it raised; \<open>out\<close> is what was
  printed.
\<close>

record state =
  config :: json
  gc :: "client option"
  files :: "(string \<times> file_kind) list"
  fds :: "int list"
  sheets :: "(string \<times> grid) list"
  faults :: "exn option list"
  trace :: "(call \<times> exn option) list"
  out :: "msg list"

definition say :: "msg \<Rightarrow> state \<Rightarrow> state" where
  "say m s = s\<lparr>out := out s @ [m]\<rparr>"

text \<open>
  \<open>os.path.exists\<close>. A string is a path. An integer (a Boolean is one) is a file
  descriptor, and one that does not fit a C \<open>int\<close> raises \<open>OverflowError\<close>. A
  list or a dictionary raises \<open>TypeError\<close>. \<open>None\<close> never reaches the call.
\<close>

definition fd_exists :: "state \<Rightarrow> int \<Rightarrow> exn + bool" where
  "fd_exists s n =
     (if n < - 2147483648 \<or> 2147483647 < n then Inl OverflowError else Inr (n \<in> set (fds s)))"

fun os_path_exists :: "state \<Rightarrow> json \<Rightarrow> exn + bool" where
  "os_path_exists s (JStr p) = Inr (map_of (files s) p \<noteq> None)"
| "os_path_exists s (JInt n) = fd_exists s n"
| "os_path_exists s (JBool b) = fd_exists s (if b then 1 else 0)"
| "os_path_exists s JNull = Inl TypeError"
| "os_path_exists s (JArr xs) = Inl TypeError"
| "os_path_exists s (JObj kvs) = Inl TypeError"

subsection \<open>The remote tabular service\<close>

text \<open>
  Modelled from the spec: the client library (gspread) and the hosted spreadsheet are
  not part of the repository. The spec lists what the service offers: open-by-address,
  read-all-records, read-row, find-cell-by-value (optionally scoped to a column),
  find-all-cells-by-value (scoped to a column), write-cell-by-position, append-row.
  A worksheet is a list of rows of cell texts; rows and columns are counted from 1; a
  cell that a row does not list is blank, the empty string.
\<close>

definition row_cell :: "string list \<Rightarrow> nat \<Rightarrow> string" where
  "row_cell row c = (if 1 \<le> c \<and> c \<le> length row then row ! (c - 1) else [])"

definition cell_at :: "grid \<Rightarrow> nat \<Rightarrow> nat \<Rightarrow> string" where
  "cell_at g r c = (if 1 \<le> r \<and> r \<le> length g then row_cell (g ! (r - 1)) c else [])"

text \<open>Modelled from the spec: the cells of column \<open>c\<close>, one for each row, in row order.\<close>

definition column :: "grid \<Rightarrow> nat \<Rightarrow> string list" where
  "column g c = map (\<lambda>row. row_cell row c) g"

text \<open>Modelled from the spec: read-row.\<close>

definition row_values :: "grid \<Rightarrow> nat \<Rightarrow> string list" where
  "row_values g r = (if 1 \<le> r \<and> r \<le> length g then g ! (r - 1) else [])"

text \<open>Modelled from the spec: reading one column.\<close>

definition col_values :: "grid \<Rightarrow> nat \<Rightarrow> string list" where
  "col_values g c = column g c"

text \<open>
  Modelled from the spec: find-cell-by-value, not scoped, which is the library's
  \<open>find(query)\<close>: the first cell that holds the value. The cells that the rows
  list are visited row by row from row \<open>r\<close> on, each row from its first cell.
\<close>

primrec find_rows :: "nat \<Rightarrow> grid \<Rightarrow> string \<Rightarrow> (nat \<times> nat) option" where
  "find_rows r [] q = None"
| "find_rows r (row # rows) q =
     (case first_index row q of
        Some j \<Rightarrow> Some (r, Suc j)
      | None \<Rightarrow> find_rows (Suc r) rows q)"

definition find_cell :: "grid \<Rightarrow> string \<Rightarrow> (nat \<times> nat) option" where
  "find_cell g q = find_rows 1 g q"

text \<open>
  Modelled from the spec: find-cell-by-value scoped to a column; the first row wins. A
  cell that a row does not list reads as blank. (The library pads the rows to the widest
  one before it looks at column \<open>c\<close>, and on a worksheet that is not empty and has no
  column \<open>c\<close> its search raises \<open>IndexError\<close>: one of the errors of the
  library itself that \<open>faults\<close> stands for.)
\<close>

definition find_in_column :: "grid \<Rightarrow> string \<Rightarrow> nat \<Rightarrow> (nat \<times> nat) option" where
  "find_in_column g q c = map_option (\<lambda>i. (Suc i, c)) (first_index (column g c) q)"

text \<open>
  Modelled from the spec: find-all-cells-by-value scoped to a column, in row order. A
  cell that a row does not list reads as blank, as for the search of one cell, and the
  library's \<open>IndexError\<close> on a worksheet without column \<open>c\<close> is left to
  \<open>faults\<close> in the same way.
\<close>

definition findall_in_column :: "grid \<Rightarrow> string \<Rightarrow> nat \<Rightarrow> (nat \<times> nat) list" where
  "findall_in_column g q c =
     map (\<lambda>i. (Suc i, c)) (filter (\<lambda>i. column g c ! i = q) [0..<length g])"

text \<open>
  Modelled from the spec: read-all-records. Every row after the first becomes a record
  that pairs each header of row 1 with the row's cell below it. The conversion of
  numeric texts to numbers is left out.
\<close>

definition all_records :: "grid \<Rightarrow> (string \<times> string) list list" where
  "all_records g =
     (case g of
        [] \<Rightarrow> []
      | header # rows \<Rightarrow>
          map (\<lambda>row. map (\<lambda>j. (header ! j, row_cell row (Suc j))) [0..<length header]) rows)"

text \<open>
  Modelled from the spec: write-cell-by-position. The rows and cells in front of a
  position the worksheet does not list yet come into being blank.
\<close>

definition set_cell :: "grid \<Rightarrow> nat \<Rightarrow> nat \<Rightarrow> string \<Rightarrow> grid" where
  "set_cell g r c v =
     (let g1 = g @ replicate (r - length g) [];
          row = g1 ! (r - 1);
          row1 = row @ replicate (c - length row) []
      in g1[r - 1 := row1[c - 1 := v]])"

text \<open>Modelled from the spec: append-row, after the last row.\<close>

definition append_row :: "grid \<Rightarrow> string list \<Rightarrow> grid" where
  "append_row g vs = g @ [vs]"

text \<open>The worksheet behind a handle, read when a call is made.\<close>

fun grid_of :: "state \<Rightarrow> worksheet \<Rightarrow> grid" where
  "grid_of s (Worksheet u) = (case map_of (sheets s) u of None \<Rightarrow> [] | Some g \<Rightarrow> g)"

primrec put_sheet :: "string \<Rightarrow> grid \<Rightarrow> (string \<times> grid) list \<Rightarrow> (string \<times> grid) list" where
  "put_sheet u g [] = []"
| "put_sheet u g (kv # kvs) = (if fst kv = u then (u, g) # kvs else kv # put_sheet u g kvs)"

fun put_grid :: "worksheet \<Rightarrow> grid \<Rightarrow> state \<Rightarrow> state" where
  "put_grid (Worksheet u) g s = s\<lparr>sheets := put_sheet u g (sheets s)\<rparr>"

subsection \<open>Calls into the client library\<close>

text \<open>
  Modelled from the spec: every call into the client library either raises (a
  transport error, an error the service reports, an error of the library itself), as
  \<open>faults\<close> has it for this call, or does its work on the service. Either way the call
  and its outcome go on record in \<open>trace\<close>.
\<close>

definition outcome :: "exn + 'a \<Rightarrow> exn option" where
  "outcome r = (case r of Inl e \<Rightarrow> Some e | Inr v \<Rightarrow> None)"

definition lib :: "call \<Rightarrow> (state \<Rightarrow> (exn + 'a) \<times> state) \<Rightarrow> state \<Rightarrow> (exn + 'a) \<times> state" where
  "lib c body s =
     (case faults s of
        Some e # fs \<Rightarrow> (Inl e, s\<lparr>faults := fs, trace := trace s @ [(c, Some e)]\<rparr>)
      | _ \<Rightarrow>
          (case body (s\<lparr>faults := tl (faults s)\<rparr>) of
             (r, s1) \<Rightarrow> (r, s1\<lparr>trace := trace s1 @ [(c, outcome r)]\<rparr>)))"

text \<open>Modelled from the spec: \<open>gspread.service_account(filename=...)\<close>.\<close>

definition gs_service_account :: "json \<Rightarrow> state \<Rightarrow> (exn + client) \<times> state" where
  "gs_service_account filename = lib (ServiceAccount filename) (\<lambda>s. (Inr Client, s))"

text \<open>
  Modelled from the spec: open-by-address. An address that is not a string raises
  \<open>TypeError\<close> in the library's search for the spreadsheet key; a string that is
  the address of no spreadsheet raises \<open>SpreadsheetNotFound\<close>.
\<close>

definition gs_open_by_url :: "json \<Rightarrow> state \<Rightarrow> (exn + string) \<times> state" where
  "gs_open_by_url url s =
     (case url of
        JStr u \<Rightarrow>
          lib (OpenByUrl url)
            (\<lambda>s1. (case map_of (sheets s1) u of
                     None \<Rightarrow> Inl SpreadsheetNotFound
                   | Some g \<Rightarrow> Inr u, s1)) s
      | _ \<Rightarrow> (Inl TypeError, s\<lparr>trace := trace s @ [(OpenByUrl url, Some TypeError)]\<rparr>))"

text \<open>Modelled from the spec: the first page of a spreadsheet, \<open>sheet.sheet1\<close>.\<close>

definition gs_sheet1 :: "string \<Rightarrow> state \<Rightarrow> (exn + worksheet) \<times> state" where
  "gs_sheet1 u = lib (Sheet1 u) (\<lambda>s. (Inr (Worksheet u), s))"

text \<open>Modelled from the spec: \<open>worksheet.get_all_records()\<close>.\<close>

definition gs_get_all_records :: "worksheet \<Rightarrow> state \<Rightarrow> (exn + (string \<times> string) list list) \<times> state" where
  "gs_get_all_records ws = lib GetAllRecords (\<lambda>s. (Inr (all_records (grid_of s ws)), s))"

text \<open>Modelled from the spec: \<open>worksheet.row_values(r)\<close>.\<close>

definition gs_row_values :: "worksheet \<Rightarrow> nat \<Rightarrow> state \<Rightarrow> (exn + string list) \<times> state" where
  "gs_row_values ws r = lib (RowValues r) (\<lambda>s. (Inr (row_values (grid_of s ws) r), s))"

text \<open>Modelled from the spec: \<open>worksheet.col_values(c)\<close>.\<close>

definition gs_col_values :: "worksheet \<Rightarrow> nat \<Rightarrow> state \<Rightarrow> (exn + string list) \<times> state" where
  "gs_col_values ws c = lib (ColValues c) (\<lambda>s. (Inr (col_values (grid_of s ws) c), s))"

text \<open>Modelled from the spec: \<open>worksheet.find(query)\<close>; \<open>None\<close> when no cell holds it.\<close>

definition gs_find :: "worksheet \<Rightarrow> string \<Rightarrow> state \<Rightarrow> (exn + (nat \<times> nat) option) \<times> state" where
  "gs_find ws q = lib (Find q) (\<lambda>s. (Inr (find_cell (grid_of s ws) q), s))"

text \<open>Modelled from the spec: \<open>worksheet.find(query, in_column=c)\<close>.\<close>

definition gs_find_in_column ::
  "worksheet \<Rightarrow> string \<Rightarrow> nat \<Rightarrow> state \<Rightarrow> (exn + (nat \<times> nat) option) \<times> state" where
  "gs_find_in_column ws q c =
     lib (FindInColumn q c) (\<lambda>s. (Inr (find_in_column (grid_of s ws) q c), s))"

text \<open>Modelled from the spec: \<open>worksheet.findall(query, in_column=c)\<close>.\<close>

definition gs_findall_in_column ::
  "worksheet \<Rightarrow> string \<Rightarrow> nat \<Rightarrow> state \<Rightarrow> (exn + (nat \<times> nat) list) \<times> state" where
  "gs_findall_in_column ws q c =
     lib (FindAllInColumn q c) (\<lambda>s. (Inr (findall_in_column (grid_of s ws) q c), s))"

text \<open>
  Modelled from the spec: \<open>worksheet.update_cell(r, c, value)\<close>. The library
  refuses a position with a zero in it. The value is a text that the service stores as
  it is; what the service makes of a formula or of a number typed as text is left out.
\<close>

definition gs_update_cell :: "worksheet \<Rightarrow> nat \<Rightarrow> nat \<Rightarrow> string \<Rightarrow> state \<Rightarrow> (exn + unit) \<times> state" where
  "gs_update_cell ws r c v =
     lib (UpdateCell r c v)
       (\<lambda>s. if r = 0 \<or> c = 0 then (Inl GSpreadException, s)
            else (Inr (), put_grid ws (set_cell (grid_of s ws) r c v) s))"

text \<open>Modelled from the spec: \<open>worksheet.append_row(values, value_input_option='USER_ENTERED')\<close>.\<close>

definition gs_append_row :: "worksheet \<Rightarrow> string list \<Rightarrow> state \<Rightarrow> (exn + unit) \<times> state" where
  "gs_append_row ws vs =
     lib (AppendRow vs) (\<lambda>s. (Inr (), put_grid ws (append_row (grid_of s ws) vs) s))"

subsection \<open>The methods of SheetsHandler\<close>

text \<open>\<open>_load_config\<close> (lines 27 to 45).\<close>

definition load_config :: "string \<Rightarrow> state \<Rightarrow> (exn + json) \<times> state" where
  "load_config path s =
     (case map_of (files s) path of
        None \<Rightarrow> (Inr JNull, say (ConfigFileNotFound path) s)
      | Some Unreadable \<Rightarrow> (Inl OSError, s)
      | Some NotJson \<Rightarrow> (Inr JNull, say (ConfigNotValidJson path) s)
      | Some (Json j) \<Rightarrow> (Inr j, s))"

text \<open>\<open>authenticate\<close> (lines 47 to 67).\<close>

definition authenticate :: "state \<Rightarrow> (exn + unit) \<times> state" where
  "authenticate s =
     (if \<not> truthy (config s) then (Inr (), say CannotAuthenticateWithoutConfig s)
      else
        (case dict_get (config s) ''google_credentials_path'' of
           Inl e \<Rightarrow> (Inl e, s)
         | Inr credentials_file \<Rightarrow>
             (if \<not> truthy credentials_file
              then (Inr (), say (CredentialsFileNotFound credentials_file) s)
              else
                (case os_path_exists s credentials_file of
                   Inl e \<Rightarrow> (Inl e, s)
                 | Inr False \<Rightarrow> (Inr (), say (CredentialsFileNotFound credentials_file) s)
                 | Inr True \<Rightarrow>
                     (case gs_service_account credentials_file s of
                        (Inr c, s1) \<Rightarrow> (Inr (), say AuthenticationOk (s1\<lparr>gc := Some c\<rparr>))
                      | (Inl e, s1) \<Rightarrow>
                          (Inr (),
                           say (if is_gspread e then AuthenticationGspreadError e
                                else AuthenticationUnexpectedError e) s1))))))"

text \<open>\<open>__init__\<close> (lines 14 to 25): the spec's \<open>create\<close>.\<close>

definition create :: "string \<Rightarrow> state \<Rightarrow> (exn + unit) \<times> state" where
  "create config_path s =
     (case load_config config_path (s\<lparr>gc := None\<rparr>) of
        (Inl e, s1) \<Rightarrow> (Inl e, s1)
      | (Inr c, s1) \<Rightarrow>
          (if truthy c then authenticate (s1\<lparr>config := c\<rparr>) else (Inr (), s1\<lparr>config := c\<rparr>)))"

text \<open>\<open>_get_worksheet\<close> (lines 69 to 90).\<close>

definition worksheet_error :: "json \<Rightarrow> exn \<Rightarrow> state \<Rightarrow> (exn + worksheet option) \<times> state" where
  "worksheet_error sheet_url e s =
     (if e = SpreadsheetNotFound then (Inr None, say (SpreadsheetNotFoundAt sheet_url) s)
      else if is_gspread e then (Inr None, say (SpreadsheetAccessError sheet_url e) s)
      else (Inl e, s))"

definition get_worksheet :: "json \<Rightarrow> state \<Rightarrow> (exn + worksheet option) \<times> state" where
  "get_worksheet sheet_url s =
     (case gc s of
        None \<Rightarrow> (Inr None, say ClientNotAuthenticated s)
      | Some c \<Rightarrow>
          (case gs_open_by_url sheet_url s of
             (Inl e, s1) \<Rightarrow> worksheet_error sheet_url e s1
           | (Inr sheet, s1) \<Rightarrow>
               (case gs_sheet1 sheet s1 of
                  (Inl e, s2) \<Rightarrow> worksheet_error sheet_url e s2
                | (Inr ws, s2) \<Rightarrow> (Inr (Some ws), s2))))"

text \<open>\<open>get_sheet_records\<close> (lines 92 to 109): the spec's \<open>getRecords\<close>.\<close>

definition get_sheet_records :: "string \<Rightarrow> state \<Rightarrow> (exn + (string \<times> string) list list) \<times> state" where
  "get_sheet_records sheet_url s =
     (case get_worksheet (JStr sheet_url) s of
        (Inl e, s1) \<Rightarrow> (Inl e, s1)
      | (Inr None, s1) \<Rightarrow> (Inr [], s1)
      | (Inr (Some worksheet), s1) \<Rightarrow>
          (case gs_get_all_records worksheet s1 of
             (Inr records, s2) \<Rightarrow> (Inr records, s2)
           | (Inl e, s2) \<Rightarrow>
               (if is_gspread e then (Inr [], say (RecordsReadError sheet_url e) s2)
                else (Inl e, s2))))"

text \<open>\<open>get_sheet_headers\<close> (lines 111 to 128): the spec's \<open>getHeaders\<close>.\<close>

definition get_sheet_headers :: "string \<Rightarrow> state \<Rightarrow> (exn + string list) \<times> state" where
  "get_sheet_headers sheet_url s =
     (case get_worksheet (JStr sheet_url) s of
        (Inl e, s1) \<Rightarrow> (Inl e, s1)
      | (Inr None, s1) \<Rightarrow> (Inr [], s1)
      | (Inr (Some worksheet), s1) \<Rightarrow>
          (case gs_row_values worksheet 1 s1 of
             (Inr headers, s2) \<Rightarrow> (Inr headers, s2)
           | (Inl e, s2) \<Rightarrow>
               (if is_gspread e then (Inr [], say (HeadersReadError sheet_url e) s2)
                else (Inl e, s2))))"

text \<open>
  \<open>update_record\<close> (lines 130 to 185): the spec's \<open>updateRecord\<close>.
  \<open>update_record_try\<close> is the body of its \<open>try\<close> (lines 153 to 178);
  \<open>new_value\<close> is a text.
\<close>

definition update_record_try ::
  "worksheet \<Rightarrow> string \<Rightarrow> pyval \<Rightarrow> string \<Rightarrow> string \<Rightarrow> state \<Rightarrow> (exn + bool) \<times> state" where
  "update_record_try worksheet identifier_column identifier_value column_to_update new_value s =
     (case gs_find worksheet identifier_column s of
        (Inl e, s1) \<Rightarrow> (Inl e, s1)
      | (Inr None, s1) \<Rightarrow> (Inr False, say (IdentifierColumnNotFound identifier_column) s1)
      | (Inr (Some header_cell), s1) \<Rightarrow>
          (case gs_find_in_column worksheet (py_str identifier_value) (snd header_cell) s1 of
             (Inl e, s2) \<Rightarrow> (Inl e, s2)
           | (Inr None, s2) \<Rightarrow>
               (Inr False, say (IdentifierRowNotFound identifier_column identifier_value) s2)
           | (Inr (Some cell_to_find), s2) \<Rightarrow>
               (case gs_row_values worksheet 1 s2 of
                  (Inl e, s3) \<Rightarrow> (Inl e, s3)
                | (Inr headers, s3) \<Rightarrow>
                    (case first_index headers column_to_update of
                       None \<Rightarrow> (Inr False, say (ColumnToUpdateNotFound column_to_update) s3)
                     | Some i \<Rightarrow>
                         (case gs_update_cell worksheet (fst cell_to_find) (i + 1) new_value s3 of
                            (Inl e, s4) \<Rightarrow> (Inl e, s4)
                          | (Inr u, s4) \<Rightarrow>
                              (Inr True,
                               say (RecordUpdated column_to_update new_value identifier_value) s4))))))"

definition update_record ::
  "string \<Rightarrow> string \<Rightarrow> pyval \<Rightarrow> string \<Rightarrow> string \<Rightarrow> state \<Rightarrow> (exn + bool) \<times> state" where
  "update_record sheet_url identifier_column identifier_value column_to_update new_value s =
     (case get_worksheet (JStr sheet_url) s of
        (Inl e, s1) \<Rightarrow> (Inl e, s1)
      | (Inr None, s1) \<Rightarrow> (Inr False, s1)
      | (Inr (Some worksheet), s1) \<Rightarrow>
          (case update_record_try worksheet identifier_column identifier_value
                  column_to_update new_value s1 of
             (Inr b, s2) \<Rightarrow> (Inr b, s2)
           | (Inl e, s2) \<Rightarrow>
               (Inr False,
                say (if is_gspread e then UpdateGspreadError e else UpdateUnexpectedError e) s2)))"

text \<open>\<open>get_all_process_numbers\<close> (lines 187 to 198): the spec's \<open>getAllProcessNumbers\<close>.\<close>

definition get_all_process_numbers :: "state \<Rightarrow> (exn + string list) \<times> state" where
  "get_all_process_numbers s =
     (case dict_get (config s) ''procesos_sheet_url'' of
        Inl e \<Rightarrow> (Inl e, s)
      | Inr sheet_url \<Rightarrow>
          (case get_worksheet sheet_url s of
             (Inl e, s1) \<Rightarrow> (Inl e, s1)
           | (Inr None, s1) \<Rightarrow> (Inr [], s1)
           | (Inr (Some worksheet), s1) \<Rightarrow>
               (case gs_col_values worksheet 1 (say ReadingProcessNumbers s1) of
                  (Inr vs, s2) \<Rightarrow> (Inr (drop 1 vs), s2)
                | (Inl e, s2) \<Rightarrow>
                    (if is_gspread e then (Inr [], say (ProcessNumbersReadError e) s2)
                     else (Inl e, s2)))))"

text \<open>
  \<open>deactivate_all_processes\<close> (lines 200 to 216): the spec's
  \<open>deactivateAllProcesses\<close>. \<open>update_cells\<close> is its \<open>for\<close> loop.
\<close>

fun update_cells :: "worksheet \<Rightarrow> (nat \<times> nat) list \<Rightarrow> state \<Rightarrow> (exn + unit) \<times> state" where
  "update_cells worksheet [] s = (Inr (), s)"
| "update_cells worksheet (cell # cells) s =
     (case gs_update_cell worksheet (fst cell) (snd cell) ''NO'' s of
        (Inl e, s1) \<Rightarrow> (Inl e, s1)
      | (Inr u, s1) \<Rightarrow> update_cells worksheet cells s1)"

definition deactivate_error :: "exn \<Rightarrow> state \<Rightarrow> (exn + bool) \<times> state" where
  "deactivate_error e s =
     (if is_gspread e then (Inr False, say (DeactivateError e) s) else (Inl e, s))"

definition deactivate_all_processes :: "state \<Rightarrow> (exn + bool) \<times> state" where
  "deactivate_all_processes s =
     (case dict_get (config s) ''procesos_sheet_url'' of
        Inl e \<Rightarrow> (Inl e, s)
      | Inr sheet_url \<Rightarrow>
          (case get_worksheet sheet_url s of
             (Inl e, s1) \<Rightarrow> (Inl e, s1)
           | (Inr None, s1) \<Rightarrow> (Inr False, s1)
           | (Inr (Some worksheet), s1) \<Rightarrow>
               (case gs_findall_in_column worksheet ''SI'' 10 s1 of
                  (Inl e, s2) \<Rightarrow> deactivate_error e s2
                | (Inr active_cells, s2) \<Rightarrow>
                    (case update_cells worksheet active_cells s2 of
                       (Inl e, s3) \<Rightarrow> deactivate_error e s3
                     | (Inr u, s3) \<Rightarrow>
                         (Inr True, say (ProcessesDeactivated (length active_cells)) s3)))))"

text \<open>\<open>add_new_process\<close> (lines 218 to 238): the spec's \<open>addNewProcess\<close>.\<close>

definition add_new_process :: "string list \<Rightarrow> state \<Rightarrow> (exn + bool) \<times> state" where
  "add_new_process process_data_list s =
     (case dict_get (config s) ''procesos_sheet_url'' of
        Inl e \<Rightarrow> (Inl e, s)
      | Inr sheet_url \<Rightarrow>
          (case get_worksheet sheet_url s of
             (Inl e, s1) \<Rightarrow> (Inl e, s1)
           | (Inr None, s1) \<Rightarrow> (Inr False, s1)
           | (Inr (Some worksheet), s1) \<Rightarrow>
               (case gs_append_row worksheet process_data_list s1 of
                  (Inr u, s2) \<Rightarrow> (Inr True, say ProcessAdded s2)
                | (Inl e, s2) \<Rightarrow>
                    (if is_gspread e then (Inr False, say (AddProcessError e) s2)
                     else (Inl e, s2)))))"

subsection \<open>Notions used in the properties\<close>

text \<open>The adapter's own state: the loaded configuration and the session handle.\<close>

definition adapter :: "state \<Rightarrow> json \<times> client option" where
  "adapter s = (config s, gc s)"

text \<open>
  A course of the coming library calls in which every call that raises does so with an
  exception of the client library's own type; and a result that such a course allows.
\<close>

definition gspread_fault :: "exn option \<Rightarrow> bool" where
  "gspread_fault f = (case f of None \<Rightarrow> True | Some e \<Rightarrow> is_gspread e)"

definition only_gspread_faults :: "state \<Rightarrow> bool" where
  "only_gspread_faults s = list_all gspread_fault (faults s)"

definition caught :: "exn + 'a \<Rightarrow> bool" where
  "caught r = (case r of Inl e \<Rightarrow> is_gspread e | Inr v \<Rightarrow> True)"


text \<open>
  Concrete states. \<open>fresh\<close> is a process with no file and no spreadsheet in reach.
  \<open>with_sheet g\<close> is an adapter with its configuration loaded and its session
  established, and the processes spreadsheet holding the worksheet \<open>g\<close>.
\<close>

definition fresh :: state where
  "fresh = \<lparr>config = JNull, gc = None, files = [], fds = [], sheets = [], faults = [],
     trace = [], out = []\<rparr>"

definition office_config :: json where
  "office_config =
     JObj [(''google_credentials_path'', JStr ''credentials.json''),
           (''procesos_sheet_url'', JStr ''https://sheets/procesos'')]"

definition with_sheet :: "grid \<Rightarrow> state" where
  "with_sheet g = \<lparr>config = office_config, gc = Some Client,
     files = [(''config.json'', Json office_config), (''credentials.json'', Json (JObj [(''type'', JStr ''service_account'')]))],
     fds = [], sheets = [(''https://sheets/procesos'', g)], faults = [], trace = [], out = []\<rparr>"

text \<open>
  Worksheets: the two rows of the spec's update example; a worksheet whose tenth column
  mixes the active marker with other values, and the same worksheet after the sweep.
\<close>

definition procesos :: grid where
  "procesos = [[''numero_proceso'', ''objeto_proceso''], [''SIP-046-2025'', ''Compra de equipos'']]"

definition estados :: grid where
  "estados =
     [[''numero_proceso'', ''b'', ''c'', ''d'', ''e'', ''f'', ''g'', ''h'', ''i'', ''activo''],
      [''A'', [], [], [], [], [], [], [], [], ''SI''],
      [''B'', [], [], [], [], [], [], [], [], ''NO''],
      [''C'', [], [], [], [], [], [], [], [], ''SI'']]"

definition estados_after :: grid where
  "estados_after =
     [[''numero_proceso'', ''b'', ''c'', ''d'', ''e'', ''f'', ''g'', ''h'', ''i'', ''activo''],
      [''A'', [], [], [], [], [], [], [], [], ''NO''],
      [''B'', [], [], [], [], [], [], [], [], ''NO''],
      [''C'', [], [], [], [], [], [], [], [], ''NO'']]"

section \<open>Properties\<close>

subsection \<open>The adapter's own state is only written by initialisation and authentication\<close>

lemma adapter_say [simp]: "adapter (say m s) = adapter s"
  by (simp add: adapter_def say_def)

lemma adapter_upd [simp]:
  "adapter (s\<lparr>faults := f\<rparr>) = adapter s" "adapter (s\<lparr>trace := tr\<rparr>) = adapter s"
  "adapter (s\<lparr>sheets := sh\<rparr>) = adapter s" "adapter (s\<lparr>out := ou\<rparr>) = adapter s"
  by (simp_all add: adapter_def)

lemma adapter_put_grid [simp]: "adapter (put_grid ws g s) = adapter s"
  by (cases ws) (simp add: adapter_def)

lemma lib_adapter:
  assumes "\<And>t r t'. body t = (r, t') \<Longrightarrow> adapter t' = adapter t"
    and "lib c body s = (r, s')"
  shows "adapter s' = adapter s"
proof (cases "\<exists>e fs. faults s = Some e # fs")
  case True
  then show ?thesis using assms(2) by (auto simp: lib_def adapter_def)
next
  case False
  obtain r1 s1 where b: "body (s\<lparr>faults := tl (faults s)\<rparr>) = (r1, s1)"
    by (cases "body (s\<lparr>faults := tl (faults s)\<rparr>)")
  from False b assms(2) have "s' = s1\<lparr>trace := trace s1 @ [(c, outcome r1)]\<rparr>"
    by (auto simp: lib_def split: list.splits option.splits)
  moreover from assms(1)[OF b] have "adapter s1 = adapter s" by (simp add: adapter_def)
  ultimately show ?thesis by (simp add: adapter_def)
qed

lemma gs_adapter:
  "gs_service_account f s = (rc, s') \<Longrightarrow> adapter s' = adapter s"
  "gs_open_by_url url s = (ro, s') \<Longrightarrow> adapter s' = adapter s"
  "gs_sheet1 u s = (rs, s') \<Longrightarrow> adapter s' = adapter s"
  "gs_get_all_records ws s = (rr, s') \<Longrightarrow> adapter s' = adapter s"
  "gs_row_values ws n s = (rv, s') \<Longrightarrow> adapter s' = adapter s"
  "gs_col_values ws n s = (rv, s') \<Longrightarrow> adapter s' = adapter s"
  "gs_find ws q s = (rf, s') \<Longrightarrow> adapter s' = adapter s"
  "gs_find_in_column ws q n s = (rf, s') \<Longrightarrow> adapter s' = adapter s"
  "gs_findall_in_column ws q n s = (rl, s') \<Longrightarrow> adapter s' = adapter s"
  "gs_update_cell ws n k v s = (ru, s') \<Longrightarrow> adapter s' = adapter s"
  "gs_append_row ws vs s = (ru, s') \<Longrightarrow> adapter s' = adapter s"
  unfolding gs_service_account_def gs_open_by_url_def gs_sheet1_def gs_get_all_records_def
    gs_row_values_def gs_col_values_def gs_find_def gs_find_in_column_def
    gs_findall_in_column_def gs_update_cell_def gs_append_row_def
  by (auto elim!: lib_adapter[rotated] split: json.splits if_splits)

lemma get_worksheet_adapter:
  "get_worksheet url s = (r, s') \<Longrightarrow> adapter s' = adapter s"
  unfolding get_worksheet_def worksheet_error_def
  by (auto split: option.splits prod.splits sum.splits if_splits dest!: gs_adapter)

lemma update_cells_adapter:
  "update_cells ws cells s = (r, s') \<Longrightarrow> adapter s' = adapter s"
proof (induction cells arbitrary: s)
  case Nil
  then show ?case by simp
next
  case (Cons cell cells)
  then show ?case
    by (auto split: prod.splits sum.splits dest!: gs_adapter)
qed

lemma update_record_try_adapter:
  "update_record_try ws ic iv cu nv s = (r, s') \<Longrightarrow> adapter s' = adapter s"
  unfolding update_record_try_def
  by (auto split: option.splits prod.splits sum.splits dest!: gs_adapter)

lemma get_sheet_records_adapter:
  "get_sheet_records url s = (r, s') \<Longrightarrow> adapter s' = adapter s"
  unfolding get_sheet_records_def
  by (auto split: option.splits prod.splits sum.splits if_splits
      dest!: gs_adapter get_worksheet_adapter)

lemma get_sheet_headers_adapter:
  "get_sheet_headers url s = (r, s') \<Longrightarrow> adapter s' = adapter s"
  unfolding get_sheet_headers_def
  by (auto split: option.splits prod.splits sum.splits if_splits
      dest!: gs_adapter get_worksheet_adapter)

lemma update_record_adapter:
  "update_record url ic iv cu nv s = (r, s') \<Longrightarrow> adapter s' = adapter s"
  unfolding update_record_def
  by (auto split: option.splits prod.splits sum.splits
      dest!: update_record_try_adapter get_worksheet_adapter)

lemma get_all_process_numbers_adapter:
  "get_all_process_numbers s = (r, s') \<Longrightarrow> adapter s' = adapter s"
  unfolding get_all_process_numbers_def
  by (auto split: option.splits prod.splits sum.splits if_splits
      dest!: gs_adapter get_worksheet_adapter)

lemma deactivate_all_processes_adapter:
  "deactivate_all_processes s = (r, s') \<Longrightarrow> adapter s' = adapter s"
  unfolding deactivate_all_processes_def deactivate_error_def
  by (auto split: option.splits prod.splits sum.splits if_splits
      dest!: gs_adapter get_worksheet_adapter update_cells_adapter)

lemma add_new_process_adapter:
  "add_new_process vs s = (r, s') \<Longrightarrow> adapter s' = adapter s"
  unfolding add_new_process_def
  by (auto split: option.splits prod.splits sum.splits if_splits
      dest!: gs_adapter get_worksheet_adapter)

text \<open>
  C9. Each of the six data operations leaves the adapter's own state as it found it: the
  configuration and the session handle after the call are those before it, for every
  state, every argument and every course of the calls into the client library, whether
  the operation returns its result, returns its failure value or raises.
\<close>

theorem data_operations_keep_adapter_state:
  "(config (snd (get_sheet_records url s)) = config s \<and>
    gc (snd (get_sheet_records url s)) = gc s) \<and>
   (config (snd (get_sheet_headers url s)) = config s \<and>
    gc (snd (get_sheet_headers url s)) = gc s) \<and>
   (config (snd (update_record url ic iv cu nv s)) = config s \<and>
    gc (snd (update_record url ic iv cu nv s)) = gc s) \<and>
   (config (snd (get_all_process_numbers s)) = config s \<and>
    gc (snd (get_all_process_numbers s)) = gc s) \<and>
   (config (snd (deactivate_all_processes s)) = config s \<and>
    gc (snd (deactivate_all_processes s)) = gc s) \<and>
   (config (snd (add_new_process vs s)) = config s \<and>
    gc (snd (add_new_process vs s)) = gc s)"
proof -
  have "adapter (snd (get_sheet_records url s)) = adapter s"
    by (metis get_sheet_records_adapter prod.collapse)
  moreover have "adapter (snd (get_sheet_headers url s)) = adapter s"
    by (metis get_sheet_headers_adapter prod.collapse)
  moreover have "adapter (snd (update_record url ic iv cu nv s)) = adapter s"
    by (metis update_record_adapter prod.collapse)
  moreover have "adapter (snd (get_all_process_numbers s)) = adapter s"
    by (metis get_all_process_numbers_adapter prod.collapse)
  moreover have "adapter (snd (deactivate_all_processes s)) = adapter s"
    by (metis deactivate_all_processes_adapter prod.collapse)
  moreover have "adapter (snd (add_new_process vs s)) = adapter s"
    by (metis add_new_process_adapter prod.collapse)
  ultimately show ?thesis by (simp add: adapter_def)
qed

subsection \<open>Evaluation on concrete states\<close>

lemmas model_defs = create_def load_config_def authenticate_def say_def get_worksheet_def
  worksheet_error_def gs_open_by_url_def gs_sheet1_def lib_def outcome_def is_gspread_def
  get_sheet_records_def get_sheet_headers_def update_record_def update_record_try_def
  get_all_process_numbers_def deactivate_all_processes_def deactivate_error_def
  add_new_process_def gs_get_all_records_def gs_row_values_def gs_col_values_def gs_find_def
  gs_find_in_column_def gs_findall_in_column_def gs_update_cell_def gs_append_row_def
  gs_service_account_def all_records_def row_values_def col_values_def column_def
  row_cell_def cell_at_def find_cell_def find_in_column_def
  findall_in_column_def set_cell_def append_row_def

lemma with_sheet_fields:
  "gc (with_sheet g) = Some Client" "faults (with_sheet g) = []"
  "dict_get (config (with_sheet g)) ''procesos_sheet_url'' = Inr (JStr ''https://sheets/procesos'')"
  "map_of (sheets (with_sheet g)) ''https://sheets/procesos'' = Some g"
  "out (with_sheet g) = []" "trace (with_sheet g) = []"
  "sheets (with_sheet g) = [(''https://sheets/procesos'', g)]"
  by (simp_all add: with_sheet_def office_config_def)

subsection \<open>Lists and worksheets\<close>

lemma first_index_Some_iff:
  "first_index xs x = Some i \<longleftrightarrow> i < length xs \<and> xs ! i = x \<and> (\<forall>k<i. xs ! k \<noteq> x)"
proof (induction xs arbitrary: i)
  case Nil
  then show ?case by simp
next
  case (Cons y ys)
  show ?case
  proof (cases "y = x")
    case True
    then show ?thesis by (cases i) auto
  next
    case False
    show ?thesis
    proof (cases i)
      case 0
      with False show ?thesis by auto
    next
      case (Suc n)
      have "(\<forall>k<Suc n. (y # ys) ! k \<noteq> x) \<longleftrightarrow> (\<forall>k<n. ys ! k \<noteq> x)"
        using False by (auto simp: less_Suc_eq_0_disj)
      with False Suc Cons.IH[of n] show ?thesis by auto
    qed
  qed
qed

lemma first_index_None_iff: "first_index xs x = None \<longleftrightarrow> x \<notin> set xs"
  by (induction xs) auto

lemma row_cell_0 [simp]: "row_cell row 0 = []"
  by (simp add: row_cell_def)

lemma row_cell_Suc: "row_cell row (Suc k) = (if k < length row then row ! k else [])"
  by (simp add: row_cell_def less_eq_Suc_le)

lemma row_cell_Nil [simp]: "row_cell [] c = []"
  by (cases c) (simp_all add: row_cell_Suc)

lemma pad_len: "k < n + (Suc k - n)"
  by arith

lemma row_cell_pad: "row_cell (row @ replicate n []) c = row_cell row c"
  by (cases c) (simp_all add: row_cell_Suc nth_append)

lemma row_cell_list_update:
  "row_cell (row[k := v]) c = (if c = Suc k \<and> k < length row then v else row_cell row c)"
  by (cases c) (simp_all add: row_cell_Suc nth_list_update)

lemma row_cell_update:
  "row_cell ((row @ replicate (Suc k - length row) [])[k := v]) c' =
     (if c' = Suc k then v else row_cell row c')"
  by (simp add: row_cell_list_update row_cell_pad pad_len)

lemma cell_at_0 [simp]: "cell_at g 0 c = []"
  by (simp add: cell_at_def)

lemma cell_at_Suc: "cell_at g (Suc i) c = (if i < length g then row_cell (g ! i) c else [])"
  by (simp add: cell_at_def less_eq_Suc_le)

lemma cell_at_pad: "cell_at (g @ replicate n []) r c = cell_at g r c"
  by (cases r) (simp_all add: cell_at_Suc nth_append)

lemma cell_at_list_update:
  "cell_at (g[i := row]) r c = (if r = Suc i \<and> i < length g then row_cell row c else cell_at g r c)"
  by (cases r) (simp_all add: cell_at_Suc nth_list_update)

lemma cell_at_set_cell:
  "cell_at (set_cell g (Suc i) (Suc k) v) r c =
     (if r = Suc i \<and> c = Suc k then v else cell_at g r c)"
proof -
  let ?g1 = "g @ replicate (Suc i - length g) []"
  have "i < length ?g1" by (simp add: pad_len)
  then have "cell_at (set_cell g (Suc i) (Suc k) v) r c =
      (if r = Suc i then (if c = Suc k then v else row_cell (?g1 ! i) c) else cell_at ?g1 r c)"
    by (simp add: set_cell_def Let_def cell_at_list_update row_cell_update pad_len del: replicate_Suc)
  also have "row_cell (?g1 ! i) c = cell_at ?g1 (Suc i) c"
    by (simp add: cell_at_Suc pad_len)
  finally show ?thesis by (simp add: cell_at_pad)
qed

lemma cell_at_set_cell_pos:
  "0 < c \<Longrightarrow> cell_at (set_cell g (Suc i) c v) r c' =
     (if r = Suc i \<and> c' = c then v else cell_at g r c')"
  by (cases c) (simp_all add: cell_at_set_cell)

lemma cell_at_sweep:
  "0 < c \<Longrightarrow> cell_at (foldl (\<lambda>g i. set_cell g (Suc i) c v) g is) r c' =
     (if c' = c \<and> r \<in> Suc ` set is then v else cell_at g r c')"
  by (induction "is" arbitrary: g) (auto simp: cell_at_set_cell_pos)

lemma column_nth: "i < length g \<Longrightarrow> column g c ! i = cell_at g (Suc i) c"
  by (simp add: column_def cell_at_Suc)

lemma cell_at_nonblank: "cell_at g r c \<noteq> [] \<Longrightarrow> \<exists>i<length g. r = Suc i"
  by (cases r) (auto simp: cell_at_Suc split: if_splits)

lemma active_rows:
  "v \<noteq> [] \<Longrightarrow>
   Suc ` set (filter (\<lambda>i. column g c ! i = v) [0..<length g]) = {r. cell_at g r c = v}"
proof (intro set_eqI iffI)
  fix r
  assume "r \<in> Suc ` set (filter (\<lambda>i. column g c ! i = v) [0..<length g])"
  then show "r \<in> {r. cell_at g r c = v}" by (auto simp: column_nth)
next
  fix r
  assume v: "v \<noteq> []" and "r \<in> {r. cell_at g r c = v}"
  then have c: "cell_at g r c = v" by simp
  with v obtain i where "i < length g" "r = Suc i" using cell_at_nonblank[of g r c] by auto
  with c show "r \<in> Suc ` set (filter (\<lambda>i. column g c ! i = v) [0..<length g])"
    by (auto simp: column_nth)
qed


lemma card_changed:
  assumes "\<And>r c'. cell_at g' r c' = (if c' = c \<and> cell_at g r c = v then w else cell_at g r c')"
    and "v \<noteq> w" and "v \<noteq> []"
  shows "card {(r, c'). cell_at g' r c' \<noteq> cell_at g r c'} =
         length (filter (\<lambda>i. column g c ! i = v) [0..<length g])"
proof -
  let ?is = "filter (\<lambda>i. column g c ! i = v) [0..<length g]"
  have "{(r, c'). cell_at g' r c' \<noteq> cell_at g r c'} = (\<lambda>r. (r, c)) ` {r. cell_at g r c = v}"
    using assms(2) by (auto simp: assms(1))
  also have "\<dots> = (\<lambda>r. (r, c)) ` Suc ` set ?is"
    by (simp only: active_rows[OF assms(3)])
  finally have "card {(r, c'). cell_at g' r c' \<noteq> cell_at g r c'} = card ((\<lambda>r. (r, c)) ` Suc ` set ?is)"
    by simp
  also have "\<dots> = card (Suc ` set ?is)"
    by (rule card_image) (simp add: inj_on_def)
  also have "\<dots> = card (set ?is)"
    by (rule card_image) simp
  also have "\<dots> = length ?is"
    by (rule distinct_card) simp
  finally show ?thesis .
qed

lemma find_cell_header:
  "first_index header q = Some j \<Longrightarrow> find_cell (header # rows) q = Some (1, Suc j)"
  by (simp add: find_cell_def)

lemma map_of_put_sheet_same:
  "map_of (put_sheet u g sh) u = (case map_of sh u of None \<Rightarrow> None | Some g0 \<Rightarrow> Some g)"
  by (induction sh) simp_all

lemma map_of_put_sheet_other:
  "u' \<noteq> u \<Longrightarrow> map_of (put_sheet u g sh) u' = map_of sh u'"
  by (induction sh) simp_all

subsection \<open>Library calls that go through\<close>

lemma no_faults_upd: "faults s = [] \<Longrightarrow> s\<lparr>faults := []\<rparr> = s"
  by simp

lemma lib_ok:
  "faults s = [] \<Longrightarrow> body s = (r, s1) \<Longrightarrow>
     lib c body s = (r, s1\<lparr>trace := trace s1 @ [(c, outcome r)]\<rparr>)"
  by (simp add: lib_def no_faults_upd)

lemma gs_ok:
  assumes "faults s = []"
  shows "gs_sheet1 u s = (Inr (Worksheet u), s\<lparr>trace := trace s @ [(Sheet1 u, None)]\<rparr>)"
    and "gs_get_all_records ws s =
          (Inr (all_records (grid_of s ws)), s\<lparr>trace := trace s @ [(GetAllRecords, None)]\<rparr>)"
    and "gs_row_values ws n s =
          (Inr (row_values (grid_of s ws) n), s\<lparr>trace := trace s @ [(RowValues n, None)]\<rparr>)"
    and "gs_col_values ws n s =
          (Inr (col_values (grid_of s ws) n), s\<lparr>trace := trace s @ [(ColValues n, None)]\<rparr>)"
    and "gs_find ws q s =
          (Inr (find_cell (grid_of s ws) q), s\<lparr>trace := trace s @ [(Find q, None)]\<rparr>)"
    and "gs_find_in_column ws q n s =
          (Inr (find_in_column (grid_of s ws) q n),
           s\<lparr>trace := trace s @ [(FindInColumn q n, None)]\<rparr>)"
    and "gs_findall_in_column ws q n s =
          (Inr (findall_in_column (grid_of s ws) q n),
           s\<lparr>trace := trace s @ [(FindAllInColumn q n, None)]\<rparr>)"
    and "gs_update_cell (Worksheet u) (Suc i) (Suc k) v s =
          (Inr (), s\<lparr>sheets := put_sheet u (set_cell (grid_of s (Worksheet u)) (Suc i) (Suc k) v) (sheets s),
                      trace := trace s @ [(UpdateCell (Suc i) (Suc k) v, None)]\<rparr>)"
    and "gs_append_row (Worksheet u) vs s =
          (Inr (), s\<lparr>sheets := put_sheet u (append_row (grid_of s (Worksheet u)) vs) (sheets s),
                      trace := trace s @ [(AppendRow vs, None)]\<rparr>)"
  using assms
  by (simp_all add: gs_sheet1_def gs_get_all_records_def gs_row_values_def gs_col_values_def
      gs_find_def gs_find_in_column_def gs_findall_in_column_def gs_update_cell_def
      gs_append_row_def lib_ok outcome_def)

lemma gs_update_cell_ok:
  "faults s = [] \<Longrightarrow> 0 < c \<Longrightarrow>
   gs_update_cell (Worksheet u) (Suc i) c v s =
     (Inr (), s\<lparr>sheets := put_sheet u (set_cell (grid_of s (Worksheet u)) (Suc i) c v) (sheets s),
                 trace := trace s @ [(UpdateCell (Suc i) c v, None)]\<rparr>)"
  by (simp add: gs_update_cell_def lib_ok outcome_def)

lemma grid_of_trace [simp]: "grid_of (s\<lparr>trace := tr\<rparr>) ws = grid_of s ws"
  by (cases ws) simp

lemma grid_of_Some: "map_of (sheets s) u = Some g \<Longrightarrow> grid_of s (Worksheet u) = g"
  by simp

lemma get_worksheet_ok:
  assumes "gc s = Some c" "faults s = []" "map_of (sheets s) u = Some g"
  shows "get_worksheet (JStr u) s =
    (Inr (Some (Worksheet u)),
     s\<lparr>trace := trace s @ [(OpenByUrl (JStr u), None), (Sheet1 u, None)]\<rparr>)"
  using assms
  by (simp add: get_worksheet_def gs_open_by_url_def lib_ok outcome_def gs_ok)

lemma update_cells_ok:
  assumes "faults s = []" and "map_of (sheets s) u = Some g" and "0 < c"
  shows "\<exists>s'. update_cells (Worksheet u) (map (\<lambda>i. (Suc i, c)) is) s = (Inr (), s') \<and>
           faults s' = [] \<and> out s' = out s \<and>
           trace s' = trace s @ map (\<lambda>i. (UpdateCell (Suc i) c ''NO'', None)) is \<and>
           map_of (sheets s') u = Some (foldl (\<lambda>g i. set_cell g (Suc i) c ''NO'') g is) \<and>
           (\<forall>u'. u' \<noteq> u \<longrightarrow> map_of (sheets s') u' = map_of (sheets s) u')"
  using assms
proof (induction "is" arbitrary: s g)
  case Nil
  then show ?case by simp
next
  case (Cons i "is")
  let ?s1 = "s\<lparr>sheets := put_sheet u (set_cell g (Suc i) c ''NO'') (sheets s),
                 trace := trace s @ [(UpdateCell (Suc i) c ''NO'', None)]\<rparr>"
  have step: "gs_update_cell (Worksheet u) (Suc i) c ''NO'' s = (Inr (), ?s1)"
    using Cons.prems by (simp add: gs_update_cell_ok)
  have "faults ?s1 = []" using Cons.prems by simp
  moreover have "map_of (sheets ?s1) u = Some (set_cell g (Suc i) c ''NO'')"
    using Cons.prems by (simp add: map_of_put_sheet_same)
  ultimately obtain s' where s':
    "update_cells (Worksheet u) (map (\<lambda>i. (Suc i, c)) is) ?s1 = (Inr (), s')"
    "faults s' = []" "out s' = out ?s1"
    "trace s' = trace ?s1 @ map (\<lambda>i. (UpdateCell (Suc i) c ''NO'', None)) is"
    "map_of (sheets s') u = Some (foldl (\<lambda>g i. set_cell g (Suc i) c ''NO'') (set_cell g (Suc i) c ''NO'') is)"
    "\<forall>u'. u' \<noteq> u \<longrightarrow> map_of (sheets s') u' = map_of (sheets ?s1) u'"
    using Cons.IH[of ?s1 "set_cell g (Suc i) c ''NO''"] Cons.prems(3) by blast
  show ?case
    using step s' by (auto simp: map_of_put_sheet_other)
qed

subsection \<open>Initialisation without a configuration\<close>

text \<open>
  When the path leads nowhere, or to a file whose text is not JSON, \<open>create\<close> returns
  normally and leaves the adapter with no configuration and no session, and it makes no
  call into the client library. On such an adapter \<open>authenticate\<close> only prints, and
  the three operations that take an address return their failure value.
\<close>

lemma say_keeps_service:
  "trace (say m s) = trace s" "sheets (say m s) = sheets s" "faults (say m s) = faults s"
  by (simp_all add: say_def)

lemma create_without_config:
  assumes "map_of (files s) path = None \<or> map_of (files s) path = Some NotJson"
  shows "fst (create path s) = Inr () \<and> config (snd (create path s)) = JNull \<and>
         gc (snd (create path s)) = None \<and> trace (snd (create path s)) = trace s"
  using assms by (auto simp: create_def load_config_def say_def)

lemma authenticate_without_config:
  "\<not> truthy (config s) \<Longrightarrow> authenticate s = (Inr (), say CannotAuthenticateWithoutConfig s)"
  by (simp add: authenticate_def)

lemma get_worksheet_no_session:
  "gc s = None \<Longrightarrow> get_worksheet url s = (Inr None, say ClientNotAuthenticated s)"
  by (simp add: get_worksheet_def)

lemma address_operations_no_session:
  assumes "gc s = None"
  shows "get_sheet_records url s = (Inr [], say ClientNotAuthenticated s)"
    and "get_sheet_headers url s = (Inr [], say ClientNotAuthenticated s)"
    and "update_record url ic iv cu nv s = (Inr False, say ClientNotAuthenticated s)"
  using assms
  by (simp_all add: get_sheet_records_def get_sheet_headers_def update_record_def
      get_worksheet_no_session)

text \<open>
  The three operations on the default spreadsheet return their failure value too when
  the session is absent, as long as the configuration is a dictionary.
\<close>

lemma default_sheet_operations_no_session:
  assumes "gc s = None" and "config s = JObj kvs"
  shows "get_all_process_numbers s = (Inr [], say ClientNotAuthenticated s)"
    and "deactivate_all_processes s = (Inr False, say ClientNotAuthenticated s)"
    and "add_new_process vs s = (Inr False, say ClientNotAuthenticated s)"
  using assms
  by (simp_all add: get_all_process_numbers_def deactivate_all_processes_def add_new_process_def
      get_worksheet_no_session)

text \<open>
  C1. The claim: for every configuration path that does not exist or whose content is
  not valid structured data, \<open>create\<close> does not raise, the adapter has no session, and
  each of the seven public operations returns its empty or false value instead of
  raising. The code does not do this. With no file at \<open>config.json\<close>, \<open>create\<close>
  returns and leaves \<open>config = None\<close> and no session; on that adapter
  \<open>get_all_process_numbers\<close>, \<open>deactivate_all_processes\<close> and
  \<open>add_new_process\<close> evaluate \<open>self.config.get(...)\<close> before they look at the
  session, and raise \<open>AttributeError\<close>.
\<close>

theorem create_without_config_default_sheet_operations_raise:
  "fst (create ''config.json'' fresh) = Inr () \<and>
   gc (snd (create ''config.json'' fresh)) = None \<and>
   config (snd (create ''config.json'' fresh)) = JNull \<and>
   fst (get_all_process_numbers (snd (create ''config.json'' fresh))) = Inl AttributeError \<and>
   fst (deactivate_all_processes (snd (create ''config.json'' fresh))) = Inl AttributeError \<and>
   fst (add_new_process [] (snd (create ''config.json'' fresh))) = Inl AttributeError"
  by (simp add: fresh_def model_defs)

text \<open>
  C4. The claim: for every public operation, if no session has been established, the
  operation returns its empty or false value without a remote call. The code does not do
  this when the configuration is absent as well, which is the state a failed
  \<open>_load_config\<close> leaves: \<open>add_new_process\<close> and \<open>deactivate_all_processes\<close>
  raise \<open>AttributeError\<close>, in every such state and for every argument. (They make no
  call into the client library: the trace is as before.)
\<close>

theorem no_session_no_config_default_sheet_operations_raise:
  "fst (add_new_process vs (s\<lparr>config := JNull, gc := None\<rparr>)) = Inl AttributeError \<and>
   trace (snd (add_new_process vs (s\<lparr>config := JNull, gc := None\<rparr>))) = trace s \<and>
   fst (deactivate_all_processes (s\<lparr>config := JNull, gc := None\<rparr>)) = Inl AttributeError \<and>
   trace (snd (deactivate_all_processes (s\<lparr>config := JNull, gc := None\<rparr>))) = trace s"
  by (simp add: add_new_process_def deactivate_all_processes_def)

subsection \<open>Errors of the client library and other errors\<close>

text \<open>
  As long as every call that raises does so with an exception of the client library's
  own type, no operation raises: the handlers of \<open>_get_worksheet\<close> and of each
  operation catch it. (For the three operations on the default spreadsheet the
  configuration has to hold the address as a string.)
\<close>

lemma only_gspread_faults_upd [simp]:
  "only_gspread_faults (s\<lparr>trace := tr\<rparr>) = only_gspread_faults s"
  "only_gspread_faults (s\<lparr>sheets := sh\<rparr>) = only_gspread_faults s"
  "only_gspread_faults (s\<lparr>out := ou\<rparr>) = only_gspread_faults s"
  "only_gspread_faults (say m s) = only_gspread_faults s"
  by (simp_all add: only_gspread_faults_def say_def)

lemma only_gspread_faults_put_grid [simp]:
  "only_gspread_faults (put_grid ws g s) = only_gspread_faults s"
  by (cases ws) (simp add: only_gspread_faults_def)

lemma lib_gspread:
  assumes "only_gspread_faults s"
    and "\<And>t. only_gspread_faults t \<Longrightarrow> only_gspread_faults (snd (body t)) \<and> caught (fst (body t))"
    and "lib c body s = (r, s')"
  shows "only_gspread_faults s' \<and> caught r"
proof (cases "faults s")
  case Nil
  with assms(1) have "only_gspread_faults (s\<lparr>faults := tl (faults s)\<rparr>)"
    by (simp add: only_gspread_faults_def)
  from assms(2)[OF this] assms(3) Nil show ?thesis
    by (auto simp: lib_def split: prod.splits)
next
  case (Cons f fs)
  with assms(1) have t: "only_gspread_faults (s\<lparr>faults := tl (faults s)\<rparr>)" and f: "gspread_fault f"
    by (simp_all add: only_gspread_faults_def)
  show ?thesis
  proof (cases f)
    case None
    from assms(2)[OF t] assms(3) Cons None show ?thesis
      by (auto simp: lib_def split: prod.splits)
  next
    case (Some e)
    with f assms(3) Cons t show ?thesis
      by (auto simp: lib_def gspread_fault_def caught_def only_gspread_faults_def)
  qed
qed

lemma lib_gspread_snd:
  assumes "only_gspread_faults s"
    and "\<And>t. only_gspread_faults t \<Longrightarrow> only_gspread_faults (snd (body t)) \<and> caught (fst (body t))"
  shows "only_gspread_faults (snd (lib c body s)) \<and> caught (fst (lib c body s))"
  by (rule lib_gspread[OF assms prod.collapse[symmetric]])

lemma gs_gspread:
  assumes "only_gspread_faults s"
  shows "only_gspread_faults (snd (gs_open_by_url (JStr u) s)) \<and> caught (fst (gs_open_by_url (JStr u) s))"
    and "only_gspread_faults (snd (gs_sheet1 u s)) \<and> caught (fst (gs_sheet1 u s))"
    and "only_gspread_faults (snd (gs_get_all_records ws s)) \<and> caught (fst (gs_get_all_records ws s))"
    and "only_gspread_faults (snd (gs_row_values ws n s)) \<and> caught (fst (gs_row_values ws n s))"
    and "only_gspread_faults (snd (gs_col_values ws n s)) \<and> caught (fst (gs_col_values ws n s))"
    and "only_gspread_faults (snd (gs_findall_in_column ws q n s)) \<and>
         caught (fst (gs_findall_in_column ws q n s))"
    and "only_gspread_faults (snd (gs_update_cell ws n k v s)) \<and> caught (fst (gs_update_cell ws n k v s))"
    and "only_gspread_faults (snd (gs_append_row ws vs s)) \<and> caught (fst (gs_append_row ws vs s))"
  unfolding gs_open_by_url_def gs_sheet1_def gs_get_all_records_def gs_row_values_def
    gs_col_values_def gs_findall_in_column_def gs_update_cell_def gs_append_row_def json.case
  by (rule lib_gspread_snd[OF assms], simp add: caught_def is_gspread_def split: option.splits)+

lemma get_worksheet_gspread:
  assumes "only_gspread_faults s"
  shows "only_gspread_faults (snd (get_worksheet (JStr u) s)) \<and>
         (\<exists>w. fst (get_worksheet (JStr u) s) = Inr w)"
proof (cases "gc s")
  case None
  with assms show ?thesis by (simp add: get_worksheet_def)
next
  case (Some c)
  obtain ro s1 where o: "gs_open_by_url (JStr u) s = (ro, s1)" by (cases "gs_open_by_url (JStr u) s")
  with gs_gspread(1)[OF assms, of u] have s1: "only_gspread_faults s1" "caught ro" by simp_all
  show ?thesis
  proof (cases ro)
    case (Inl e)
    with s1 have "is_gspread e" by (simp add: caught_def)
    with Some o Inl s1 show ?thesis by (simp add: get_worksheet_def worksheet_error_def)
  next
    case (Inr sheet)
    obtain rs s2 where w: "gs_sheet1 sheet s1 = (rs, s2)" by (cases "gs_sheet1 sheet s1")
    with gs_gspread(2)[OF s1(1), of sheet] have s2: "only_gspread_faults s2" "caught rs" by simp_all
    show ?thesis
    proof (cases rs)
      case (Inl e)
      with s2 have "is_gspread e" by (simp add: caught_def)
      with Some o Inr w Inl s2 show ?thesis by (simp add: get_worksheet_def worksheet_error_def)
    next
      case (Inr ws)
      with Some o \<open>ro = Inr sheet\<close> w s2 show ?thesis by (simp add: get_worksheet_def)
    qed
  qed
qed

lemma update_cells_gspread:
  "only_gspread_faults s \<Longrightarrow>
   only_gspread_faults (snd (update_cells ws cells s)) \<and> caught (fst (update_cells ws cells s))"
proof (induction cells arbitrary: s)
  case Nil
  then show ?case by (simp add: caught_def)
next
  case (Cons cell cells)
  obtain r s1 where u: "gs_update_cell ws (fst cell) (snd cell) ''NO'' s = (r, s1)"
    by (cases "gs_update_cell ws (fst cell) (snd cell) ''NO'' s")
  with gs_gspread(7)[OF Cons.prems, of ws "fst cell" "snd cell" "''NO''"]
  have s1: "only_gspread_faults s1" "caught r" by simp_all
  show ?case
  proof (cases r)
    case (Inl e)
    with u s1 show ?thesis by simp
  next
    case (Inr v)
    with u Cons.IH[OF s1(1)] show ?thesis by simp
  qed
qed

lemma read_gspread:
  assumes "only_gspread_faults s"
    and "\<And>ws t. only_gspread_faults t \<Longrightarrow> caught (fst (rd ws t))"
  shows "\<exists>v. fst (case get_worksheet (JStr url) s of
                  (Inl e, s1) \<Rightarrow> (Inl e, s1)
                | (Inr None, s1) \<Rightarrow> (Inr d, s1)
                | (Inr (Some ws), s1) \<Rightarrow>
                    (case rd ws s1 of
                       (Inr x, s2) \<Rightarrow> (Inr (f x), g s2)
                     | (Inl e, s2) \<Rightarrow> if is_gspread e then (Inr d, h e s2) else (Inl e, s2))) = Inr v"
proof -
  obtain r s1 where w: "get_worksheet (JStr url) s = (r, s1)" by (cases "get_worksheet (JStr url) s")
  with get_worksheet_gspread[OF assms(1), of url] obtain wo where
    s1: "only_gspread_faults s1" and r: "r = Inr wo" by auto
  show ?thesis
  proof (cases wo)
    case None
    with w r show ?thesis by simp
  next
    case (Some ws)
    obtain x s2 where rd: "rd ws s1 = (x, s2)" by (cases "rd ws s1")
    with assms(2)[OF s1, of ws] have "caught x" by simp
    with w r Some rd show ?thesis by (cases x) (simp_all add: caught_def)
  qed
qed

lemma address_operations_catch_client_errors:
  assumes "only_gspread_faults s"
  shows "(\<exists>v. fst (get_sheet_records url s) = Inr v) \<and>
         (\<exists>v. fst (get_sheet_headers url s) = Inr v) \<and>
         (\<exists>b. fst (update_record url ic iv cu nv s) = Inr b)"
proof (intro conjI)
  show "\<exists>v. fst (get_sheet_records url s) = Inr v"
    unfolding get_sheet_records_def
    using read_gspread[OF assms, where rd = gs_get_all_records and url = url and d = "[]"
        and f = "\<lambda>x. x" and g = "\<lambda>t. t" and h = "\<lambda>e. say (RecordsReadError url e)"]
    by (simp add: gs_gspread)
  show "\<exists>v. fst (get_sheet_headers url s) = Inr v"
    unfolding get_sheet_headers_def
    using read_gspread[OF assms, where rd = "\<lambda>ws. gs_row_values ws 1" and url = url and d = "[]"
        and f = "\<lambda>x. x" and g = "\<lambda>t. t" and h = "\<lambda>e. say (HeadersReadError url e)"]
    by (simp add: gs_gspread)
  obtain r s1 where w: "get_worksheet (JStr url) s = (r, s1)" by (cases "get_worksheet (JStr url) s")
  with get_worksheet_gspread[OF assms, of url] obtain wo where r: "r = Inr wo" by auto
  with w show "\<exists>b. fst (update_record url ic iv cu nv s) = Inr b"
    by (auto simp: update_record_def split: option.splits prod.splits sum.splits)
qed

lemma default_sheet_operations_catch_client_errors:
  assumes "only_gspread_faults s"
    and "dict_get (config s) ''procesos_sheet_url'' = Inr (JStr url)"
  shows "(\<exists>v. fst (get_all_process_numbers s) = Inr v) \<and>
         (\<exists>b. fst (deactivate_all_processes s) = Inr b) \<and>
         (\<exists>b. fst (add_new_process vs s) = Inr b)"
proof (intro conjI)
  show "\<exists>v. fst (get_all_process_numbers s) = Inr v"
    unfolding get_all_process_numbers_def
    using read_gspread[OF assms(1), where rd = "\<lambda>ws t. gs_col_values ws 1 (say ReadingProcessNumbers t)"
        and url = url and d = "[]" and f = "drop 1" and g = "\<lambda>t. t"
        and h = "\<lambda>e. say (ProcessNumbersReadError e)"]
    by (simp add: gs_gspread assms(2))
  show "\<exists>b. fst (add_new_process vs s) = Inr b"
    unfolding add_new_process_def
    using read_gspread[OF assms(1), where rd = "\<lambda>ws. gs_append_row ws vs" and url = url and d = False
        and f = "\<lambda>x. True" and g = "say ProcessAdded" and h = "\<lambda>e. say (AddProcessError e)"]
    by (simp add: gs_gspread assms(2))
  obtain r s1 where w: "get_worksheet (JStr url) s = (r, s1)" by (cases "get_worksheet (JStr url) s")
  with get_worksheet_gspread[OF assms(1), of url] obtain wo where
    s1: "only_gspread_faults s1" and r: "r = Inr wo" by auto
  show "\<exists>b. fst (deactivate_all_processes s) = Inr b"
  proof (cases wo)
    case None
    with w r assms(2) show ?thesis by (auto simp: deactivate_all_processes_def)
  next
    case (Some ws)
    obtain x s2 where f: "gs_findall_in_column ws ''SI'' 10 s1 = (x, s2)"
      by (cases "gs_findall_in_column ws ''SI'' 10 s1")
    with gs_gspread(6)[OF s1, of ws "''SI''" 10] have s2: "only_gspread_faults s2" "caught x"
      by simp_all
    show ?thesis
    proof (cases x)
      case (Inl e)
      with s2 have "is_gspread e" by (simp add: caught_def)
      with w r Some f Inl assms(2) show ?thesis
        by (auto simp: deactivate_all_processes_def deactivate_error_def)
    next
      case (Inr cells)
      obtain y s3 where u: "update_cells ws cells s2 = (y, s3)" by (cases "update_cells ws cells s2")
      with update_cells_gspread[OF s2(1), of ws cells] have "caught y" by simp
      with w r Some f Inr u assms(2) show ?thesis
        by (cases y) (auto simp: deactivate_all_processes_def deactivate_error_def caught_def)
    qed
  qed
qed

text \<open>
  C2. The claim: every error that arises during a public operation, also one that is not
  of the client library's own exception type, is caught in the adapter and turned into
  the operation's failure value. The code does not do this. \<open>_get_worksheet\<close> and five
  of the operations catch \<open>GSpreadException\<close> only, and \<open>update_record\<close> calls
  \<open>_get_worksheet\<close> outside its \<open>try\<close>. A \<open>ConnectionError\<close> of the transport
  leaves \<open>get_sheet_records\<close>, whether it strikes while the spreadsheet is opened or
  while the records are read, and it leaves \<open>update_record\<close> when it strikes while the
  spreadsheet is opened.
\<close>

theorem errors_of_other_types_propagate:
  "fst (get_sheet_records ''https://sheets/procesos''
          ((with_sheet procesos)\<lparr>faults := [Some ConnectionError]\<rparr>)) = Inl ConnectionError \<and>
   fst (get_sheet_records ''https://sheets/procesos''
          ((with_sheet procesos)\<lparr>faults := [None, None, Some ConnectionError]\<rparr>))
     = Inl ConnectionError \<and>
   fst (update_record ''https://sheets/procesos'' ''numero_proceso'' (PStr ''SIP-046-2025'')
          ''objeto_proceso'' ''Nuevo objeto''
          ((with_sheet procesos)\<lparr>faults := [Some ConnectionError]\<rparr>)) = Inl ConnectionError"
  by (simp add: with_sheet_def office_config_def procesos_def model_defs)

subsection \<open>update_record\<close>

text \<open>
  C3. The claim: the header cell of \<open>identifier_column\<close> is looked for in row 1 only,
  so that the operation returns false when row 1 does not hold the name, even when a
  cell outside row 1 holds it. The code does not do this: \<open>worksheet.find\<close> is called
  without \<open>in_row\<close> and searches the whole worksheet. Here row 1 is
  \<open>nombre, valor\<close>, and the name \<open>clave\<close> stands in row 2 only; the operation takes
  that cell for the header cell, finds the same cell as the row, writes \<open>nuevo\<close> into
  row 2 and returns true.
\<close>

theorem update_record_finds_header_outside_row_1:
  "''clave'' \<notin> set (row_values [[''nombre'', ''valor''], [''clave'', ''x'']] 1) \<and>
   fst (update_record ''https://sheets/procesos'' ''clave'' (PStr ''clave'') ''valor'' ''nuevo''
          (with_sheet [[''nombre'', ''valor''], [''clave'', ''x'']])) = Inr True \<and>
   sheets (snd (update_record ''https://sheets/procesos'' ''clave'' (PStr ''clave'') ''valor''
          ''nuevo'' (with_sheet [[''nombre'', ''valor''], [''clave'', ''x'']])))
     = [(''https://sheets/procesos'', [[''nombre'', ''valor''], [''clave'', ''nuevo'']])]"
  by (simp add: with_sheet_def office_config_def model_defs)

text \<open>
  C5. With a session, calls that go through, and a worksheet whose row 1 holds
  \<open>identifier_column\<close> (first at position \<open>j + 1\<close>): when no cell of that column
  equals \<open>str(identifier_value)\<close>, \<open>update_record\<close> returns false and every
  worksheet is as it was before the call.
\<close>

theorem update_record_miss:
  assumes "gc s = Some c" and "faults s = []"
    and "map_of (sheets s) url = Some (header # rows)"
    and "first_index header identifier_column = Some j"
    and "py_str identifier_value \<notin> set (column (header # rows) (Suc j))"
  shows "fst (update_record url identifier_column identifier_value column_to_update new_value s)
           = Inr False \<and>
         sheets (snd (update_record url identifier_column identifier_value
                        column_to_update new_value s)) = sheets s"
  using assms
  by (simp add: update_record_def update_record_try_def get_worksheet_ok gs_ok find_cell_header
      find_in_column_def say_def first_index_None_iff[THEN iffD2])

theorem update_record_miss_witness:
  "fst (update_record ''https://sheets/procesos'' ''numero_proceso'' (PStr ''SIP-999-2025'')
          ''objeto_proceso'' ''Nuevo objeto'' (with_sheet procesos)) = Inr False \<and>
   sheets (snd (update_record ''https://sheets/procesos'' ''numero_proceso''
          (PStr ''SIP-999-2025'') ''objeto_proceso'' ''Nuevo objeto'' (with_sheet procesos)))
     = [(''https://sheets/procesos'', procesos)]"
proof -
  have h: "first_index [''numero_proceso'', ''objeto_proceso''] ''numero_proceso'' = Some 0"
    "py_str (PStr ''SIP-999-2025'') \<notin> set (column procesos (Suc 0))"
    by (simp_all add: procesos_def column_def row_cell_def)
  have m: "map_of (sheets (with_sheet procesos)) ''https://sheets/procesos'' =
      Some ([''numero_proceso'', ''objeto_proceso''] # [[''SIP-046-2025'', ''Compra de equipos'']])"
    by (simp add: with_sheet_fields procesos_def)
  show ?thesis
    using update_record_miss[OF with_sheet_fields(1,2) m h(1) h(2)[unfolded procesos_def],
        of "''objeto_proceso''" "''Nuevo objeto''"]
    by (simp add: with_sheet_fields)
qed

text \<open>
  C6. With a session, calls that go through, and a worksheet whose row 1 holds
  \<open>identifier_column\<close> (first at position \<open>j + 1\<close>) and \<open>column_to_update\<close>
  (first at position \<open>k + 1\<close>): when row \<open>i + 1\<close> is the first row whose cell in the
  identifier column equals \<open>str(identifier_value)\<close>, \<open>update_record\<close> returns true
  and the worksheet is afterwards the one before with \<open>new_value\<close> written at row
  \<open>i + 1\<close>, column \<open>k + 1\<close>, so that this cell holds \<open>new_value\<close>. That
  \<open>first_index\<close> gives the first position is \<open>first_index_Some_iff\<close>. The
  witness is the spec's example: header \<open>numero_proceso, objeto_proceso\<close>, one data
  row, and the update that writes \<open>Nuevo objeto\<close>.
\<close>

theorem update_record_writes_first_match:
  assumes "gc s = Some c" and "faults s = []"
    and "map_of (sheets s) url = Some (header # rows)"
    and "first_index header identifier_column = Some j"
    and "first_index (column (header # rows) (Suc j)) (py_str identifier_value) = Some i"
    and "first_index (row_values (header # rows) 1) column_to_update = Some k"
  shows "fst (update_record url identifier_column identifier_value column_to_update new_value s)
           = Inr True \<and>
         map_of (sheets (snd (update_record url identifier_column identifier_value
                                column_to_update new_value s))) url
           = Some (set_cell (header # rows) (Suc i) (Suc k) new_value) \<and>
         cell_at (set_cell (header # rows) (Suc i) (Suc k) new_value) (Suc i) (Suc k) = new_value"
  using assms
  by (simp add: update_record_def update_record_try_def get_worksheet_ok gs_ok find_cell_header
      find_in_column_def say_def map_of_put_sheet_same cell_at_set_cell)

theorem update_record_writes_first_match_witness:
  "fst (update_record ''https://sheets/procesos'' ''numero_proceso'' (PStr ''SIP-046-2025'')
          ''objeto_proceso'' ''Nuevo objeto'' (with_sheet procesos)) = Inr True \<and>
   map_of (sheets (snd (update_record ''https://sheets/procesos'' ''numero_proceso''
          (PStr ''SIP-046-2025'') ''objeto_proceso'' ''Nuevo objeto'' (with_sheet procesos))))
       ''https://sheets/procesos''
     = Some [[''numero_proceso'', ''objeto_proceso''], [''SIP-046-2025'', ''Nuevo objeto'']] \<and>
   cell_at [[''numero_proceso'', ''objeto_proceso''], [''SIP-046-2025'', ''Nuevo objeto'']] 2 2
     = ''Nuevo objeto''"
proof -
  have h: "first_index [''numero_proceso'', ''objeto_proceso''] ''numero_proceso'' = Some 0"
    "first_index (column procesos (Suc 0)) (py_str (PStr ''SIP-046-2025'')) = Some 1"
    "first_index (row_values procesos 1) ''objeto_proceso'' = Some 1"
    by (simp_all add: procesos_def column_def row_cell_def row_values_def)
  have g: "set_cell procesos (Suc 1) (Suc 1) ''Nuevo objeto'' =
      [[''numero_proceso'', ''objeto_proceso''], [''SIP-046-2025'', ''Nuevo objeto'']]"
    by (simp add: procesos_def set_cell_def)
  have m: "map_of (sheets (with_sheet procesos)) ''https://sheets/procesos'' =
      Some ([''numero_proceso'', ''objeto_proceso''] # [[''SIP-046-2025'', ''Compra de equipos'']])"
    by (simp add: with_sheet_fields procesos_def)
  show ?thesis
    using update_record_writes_first_match[OF with_sheet_fields(1,2) m h(1)
        h(2)[unfolded procesos_def] h(3)[unfolded procesos_def],
        of "''Nuevo objeto''"] g[unfolded procesos_def]
    by (simp add: numeral_2_eq_2)
qed

text \<open>
  Two rows with the same identifier, given as the number 46: the row is found by the
  text \<open>46\<close>, and the first of the two is the one written.
\<close>

lemma update_record_first_of_duplicates:
  "update_record ''https://sheets/procesos'' ''id'' (PInt 46) ''estado'' ''z''
     (with_sheet [[''id'', ''estado''], [''46'', ''a''], [''46'', ''b'']]) =
   (Inr True,
    (with_sheet [[''id'', ''estado''], [''46'', ''a''], [''46'', ''b'']])\<lparr>
      sheets := [(''https://sheets/procesos'', [[''id'', ''estado''], [''46'', ''z''], [''46'', ''b'']])],
      trace := [(OpenByUrl (JStr ''https://sheets/procesos''), None),
                (Sheet1 ''https://sheets/procesos'', None), (Find ''id'', None),
                (FindInColumn ''46'' 1, None), (RowValues 1, None),
                (UpdateCell 2 2 ''z'', None)],
      out := [RecordUpdated ''estado'' ''z'' (PInt 46)]\<rparr>)"
  by (simp add: with_sheet_def office_config_def model_defs dec.simps)

subsection \<open>get_all_process_numbers\<close>

text \<open>
  With a session, calls that go through and the default address configured,
  \<open>get_all_process_numbers\<close> returns the first column without its first entry, in row
  order, and changes no worksheet. For the first column
  \<open>numero_proceso, A, B, C\<close> that is \<open>A, B, C\<close>.
\<close>

lemma get_all_process_numbers_ok:
  assumes "gc s = Some c" and "faults s = []"
    and "dict_get (config s) ''procesos_sheet_url'' = Inr (JStr url)"
    and "map_of (sheets s) url = Some g"
  shows "fst (get_all_process_numbers s) = Inr (drop 1 (col_values g 1)) \<and>
         sheets (snd (get_all_process_numbers s)) = sheets s"
  using assms
  by (simp add: get_all_process_numbers_def get_worksheet_ok gs_ok say_def)

lemma get_all_process_numbers_example:
  "fst (get_all_process_numbers (with_sheet [[''numero_proceso''], [''A''], [''B''], [''C'']]))
     = Inr [''A'', ''B'', ''C'']"
  using get_all_process_numbers_ok[OF with_sheet_fields(1,2,3,4),
      of "[[''numero_proceso''], [''A''], [''B''], [''C'']]"]
  by (simp add: col_values_def column_def row_cell_def)

text \<open>
  C8. The claim: \<open>get_all_process_numbers\<close> returns the first column of the default
  worksheet without the header, in row order, and on any failure it returns the empty
  sequence. The first part holds (the two lemmas above). The second does not hold of the
  code: when the configuration file is not JSON, the adapter is left without a
  configuration and the operation raises \<open>AttributeError\<close>; and when the transport
  fails with a \<open>ConnectionError\<close> while the column is read, the operation raises it.
\<close>

theorem get_all_process_numbers_raises_on_failure:
  "fst (get_all_process_numbers
          (snd (create ''config.json'' (fresh\<lparr>files := [(''config.json'', NotJson)]\<rparr>))))
     = Inl AttributeError \<and>
   fst (get_all_process_numbers
          ((with_sheet [[''numero_proceso''], [''A''], [''B''], [''C'']])
             \<lparr>faults := [None, None, Some ConnectionError]\<rparr>))
     = Inl ConnectionError"
  by (simp add: fresh_def with_sheet_def office_config_def model_defs)

subsection \<open>deactivate_all_processes\<close>

text \<open>
  C7. With a session, calls that go through, and the default address leading to the
  worksheet \<open>g\<close>: \<open>deactivate_all_processes\<close> returns true; afterwards a cell of
  the worksheet holds \<open>NO\<close> if it is in column 10 and held \<open>SI\<close>, and what it held
  before otherwise; the worksheets at other addresses are as before; and the count the
  operation prints is the number of cells whose content differs from before. The witness is a worksheet with \<open>SI\<close>, \<open>NO\<close>,
  \<open>SI\<close> in column 10: two cells change and the count is 2.
\<close>

theorem deactivate_all_processes_sweep:
  assumes "gc s = Some c" and "faults s = []"
    and "dict_get (config s) ''procesos_sheet_url'' = Inr (JStr url)"
    and "map_of (sheets s) url = Some g"
  shows "fst (deactivate_all_processes s) = Inr True \<and>
    (\<forall>r c. cell_at (grid_of (snd (deactivate_all_processes s)) (Worksheet url)) r c =
       (if c = 10 \<and> cell_at g r 10 = ''SI'' then ''NO'' else cell_at g r c)) \<and>
    (\<forall>u. u \<noteq> url \<longrightarrow>
       map_of (sheets (snd (deactivate_all_processes s))) u = map_of (sheets s) u) \<and>
    out (snd (deactivate_all_processes s)) =
      out s @ [ProcessesDeactivated
                (card {(r, c). cell_at (grid_of (snd (deactivate_all_processes s)) (Worksheet url)) r c
                                 \<noteq> cell_at g r c})]"
proof -
  let ?is = "filter (\<lambda>i. column g 10 ! i = ''SI'') [0..<length g]"
  let ?cells = "map (\<lambda>i. (Suc i, 10)) ?is"
  let ?s1 = "s\<lparr>trace := trace s @ [(OpenByUrl (JStr url), None), (Sheet1 url, None)]\<rparr>"
  let ?s2 = "?s1\<lparr>trace := trace ?s1 @ [(FindAllInColumn ''SI'' 10, None)]\<rparr>"
  have ws: "get_worksheet (JStr url) s = (Inr (Some (Worksheet url)), ?s1)"
    using assms by (simp add: get_worksheet_ok)
  have fa: "gs_findall_in_column (Worksheet url) ''SI'' 10 ?s1 = (Inr ?cells, ?s2)"
    using assms by (simp add: gs_ok findall_in_column_def)
  have "faults ?s2 = []" "map_of (sheets ?s2) url = Some g"
    using assms by simp_all
  then obtain s3 where s3:
    "update_cells (Worksheet url) ?cells ?s2 = (Inr (), s3)"
    "out s3 = out ?s2"
    "map_of (sheets s3) url = Some (foldl (\<lambda>g i. set_cell g (Suc i) 10 ''NO'') g ?is)"
    "\<forall>u. u \<noteq> url \<longrightarrow> map_of (sheets s3) u = map_of (sheets ?s2) u"
    using update_cells_ok[of ?s2 url g 10 ?is] by auto
  have res: "deactivate_all_processes s = (Inr True, say (ProcessesDeactivated (length ?is)) s3)"
    using assms(3) ws fa s3(1) by (simp add: deactivate_all_processes_def)
  let ?g' = "grid_of (snd (deactivate_all_processes s)) (Worksheet url)"
  have g': "?g' = foldl (\<lambda>g i. set_cell g (Suc i) 10 ''NO'') g ?is"
    using res s3(3) by (simp add: say_def)
  have cells: "cell_at ?g' r c' = (if c' = 10 \<and> cell_at g r 10 = ''SI'' then ''NO'' else cell_at g r c')"
    for r c'
  proof -
    have "Suc ` set ?is = {r. cell_at g r 10 = ''SI''}"
      by (rule active_rows) simp
    then show ?thesis unfolding g' by (simp add: cell_at_sweep)
  qed
  have n: "card {(r, c). cell_at ?g' r c \<noteq> cell_at g r c} = length ?is"
    by (rule card_changed[where w = "''NO''", OF cells]) simp_all
  have o: "out (snd (deactivate_all_processes s)) = out s @ [ProcessesDeactivated (length ?is)]"
    using res s3(2) by (simp add: say_def)
  show ?thesis
  proof (intro conjI allI)
    show "fst (deactivate_all_processes s) = Inr True"
      using res by simp
    show "cell_at ?g' r c' = (if c' = 10 \<and> cell_at g r 10 = ''SI'' then ''NO'' else cell_at g r c')"
      for r c'
      by (rule cells)
    show "u \<noteq> url \<longrightarrow>
        map_of (sheets (snd (deactivate_all_processes s))) u = map_of (sheets s) u" for u
      using res s3(4) by (simp add: say_def)
    show "out (snd (deactivate_all_processes s)) =
        out s @ [ProcessesDeactivated (card {(r, c). cell_at ?g' r c \<noteq> cell_at g r c})]"
      unfolding n by (rule o)
  qed
qed

lemma estados_run:
  "deactivate_all_processes (with_sheet estados) =
    (Inr True,
     (with_sheet estados)\<lparr>
       sheets := [(''https://sheets/procesos'',
         [[''numero_proceso'', ''b'', ''c'', ''d'', ''e'', ''f'', ''g'', ''h'', ''i'', ''activo''],
          [''A'', [], [], [], [], [], [], [], [], ''NO''],
          [''B'', [], [], [], [], [], [], [], [], ''NO''],
          [''C'', [], [], [], [], [], [], [], [], ''NO'']])],
       trace := [(OpenByUrl (JStr ''https://sheets/procesos''), None),
                 (Sheet1 ''https://sheets/procesos'', None),
                 (FindAllInColumn ''SI'' 10, None),
                 (UpdateCell 2 10 ''NO'', None), (UpdateCell 4 10 ''NO'', None)],
       out := [ProcessesDeactivated 2]\<rparr>)"
  by (simp add: with_sheet_def office_config_def estados_def model_defs)

theorem deactivate_all_processes_sweep_witness:
  "fst (deactivate_all_processes (with_sheet estados)) = Inr True \<and>
   grid_of (snd (deactivate_all_processes (with_sheet estados))) (Worksheet ''https://sheets/procesos'')
     = estados_after \<and>
   out (snd (deactivate_all_processes (with_sheet estados))) = [ProcessesDeactivated 2] \<and>
   card {(r, c). cell_at estados_after r c \<noteq> cell_at estados r c} = 2"
proof -
  have g: "grid_of (snd (deactivate_all_processes (with_sheet estados)))
             (Worksheet ''https://sheets/procesos'') = estados_after"
    by (simp add: estados_run estados_after_def)
  have o: "out (snd (deactivate_all_processes (with_sheet estados))) = [ProcessesDeactivated 2]"
    by (simp add: estados_run)
  from deactivate_all_processes_sweep[OF with_sheet_fields(1,2,3,4), of estados]
  have "fst (deactivate_all_processes (with_sheet estados)) = Inr True"
    and "out (snd (deactivate_all_processes (with_sheet estados))) =
      out (with_sheet estados) @
      [ProcessesDeactivated (card {(r, c). cell_at estados_after r c \<noteq> cell_at estados r c})]"
    unfolding g by blast+
  with g o show ?thesis by (simp add: with_sheet_fields)
qed



end
